theory Spec2Isabelle
  imports Complex_Main
begin

section \<open>JavaScript values used by the middleware\<close>

text \<open>
  The values that cross the interfaces of \<^verbatim>\<open>src/index.js\<close>: the results of the
  configured callbacks, header values, the response body. Every number that reaches the
  middleware is an integer by the contract of its producer (the counters and the UNIX
  timestamp of the store, the millisecond clock), so \<open>Num\<close> carries an \<open>int\<close>; the
  one fractional intermediate value (\<^verbatim>\<open>Date.now() / 1000\<close>) is computed on \<open>real\<close>
  below. \<open>Obj\<close> stands for any object or function reference.
\<close>

datatype jsval = Undefined | Null | Bool bool | Num int | Str string | Obj nat

text \<open>JavaScript truthiness, as used by \<^verbatim>\<open>if\<close>, \<^verbatim>\<open>?:\<close>, \<^verbatim>\<open>||\<close> and \<^verbatim>\<open>!\<close>.\<close>

fun truthy :: "jsval \<Rightarrow> bool" where
  "truthy Undefined = False"
| "truthy Null = False"
| "truthy (Bool b) = b"
| "truthy (Num n) = (n \<noteq> 0)"
| "truthy (Str s) = (s \<noteq> [])"
| "truthy (Obj _) = True"

text \<open>The operator \<^verbatim>\<open>a || b\<close>: the left operand when it is truthy, else the right one.\<close>

definition js_or :: "jsval \<Rightarrow> jsval \<Rightarrow> jsval" where
  "js_or a b = (if truthy a then a else b)"

text \<open>Decimal rendering of an integer, for \<^verbatim>\<open>String(n)\<close>.\<close>

function show_nat :: "nat \<Rightarrow> string" where
  "show_nat n =
     (if n < 10 then [''0123456789'' ! n]
      else show_nat (n div 10) @ [''0123456789'' ! (n mod 10)])"
  by pat_completeness auto
termination
  by (relation "measure (\<lambda>n. n)") auto

definition show_int :: "int \<Rightarrow> string" where
  "show_int i = (if i < 0 then CHR ''-'' # show_nat (nat (- i)) else show_nat (nat i))"

fun to_string :: "jsval \<Rightarrow> string" where
  "to_string Undefined = ''undefined''"
| "to_string Null = ''null''"
| "to_string (Bool b) = (if b then ''true'' else ''false'')"
| "to_string (Num n) = show_int n"
| "to_string (Str s) = s"
| "to_string (Obj _) = ''[object Object]''"

text \<open>
  Thrown values. \<open>Error m c\<close> is an \<^verbatim>\<open>Error\<close> object with message \<open>m\<close> and the
  property \<^verbatim>\<open>statusCode\<close> (\<open>None\<close> when it was never assigned); \<open>TypeError\<close> is what
  reading a property of \<^verbatim>\<open>undefined\<close> raises.
\<close>

datatype js_error = Error string "int option" | TypeError string

text \<open>
  \<^verbatim>\<open>new Error(v)\<close>: the message is \<^verbatim>\<open>String(v)\<close>, and the empty string when \<open>v\<close> is
  \<^verbatim>\<open>undefined\<close>.
\<close>

definition new_Error :: "jsval \<Rightarrow> js_error" where
  "new_Error v = Error (case v of Undefined \<Rightarrow> [] | _ \<Rightarrow> to_string v) None"

fun set_statusCode :: "js_error \<Rightarrow> int \<Rightarrow> js_error" where
  "set_statusCode (Error m _) c = Error m (Some c)"
| "set_statusCode (TypeError m) c = TypeError m"

text \<open>
  The operator \<^verbatim>\<open>x | 0\<close> (ToInt32): the fraction is dropped towards zero and the
  integer is reduced to the signed 32-bit range.
\<close>

definition js_trunc :: "real \<Rightarrow> int" where
  "js_trunc x = (if 0 \<le> x then \<lfloor>x\<rfloor> else \<lceil>x\<rceil>)"

definition to_int32 :: "int \<Rightarrow> int" where
  "to_int32 n = (n + 2 ^ 31) mod 2 ^ 32 - 2 ^ 31"

section \<open>Request, response, configuration\<close>

text \<open>
  The parts of the incoming request that \<^verbatim>\<open>keyGenerator\<close> reads.
  \<open>connection_socket\<close> is \<open>None\<close> when \<^verbatim>\<open>req.connection.socket\<close> is undefined and
  otherwise holds that socket's \<^verbatim>\<open>remoteAddress\<close>.
\<close>

record request =
  req_headers :: "string \<rightharpoonup> string"
  connection_remoteAddress :: jsval
  socket_remoteAddress :: jsval
  connection_socket :: "jsval option"

text \<open>
  The response object as the middleware uses it: \<open>res_headers\<close> lists the
  \<^verbatim>\<open>setHeader\<close> calls in the order they were made, \<open>body\<close> is the property
  \<^verbatim>\<open>res.body\<close> (read, never written, by the middleware) and \<open>ended\<close> is the argument
  of \<^verbatim>\<open>res.end\<close> once the response was finalised.
\<close>

record response =
  statusCode :: int
  res_headers :: "(string \<times> jsval) list"
  body :: jsval
  ended :: "jsval option"

definition setHeader :: "string \<Rightarrow> jsval \<Rightarrow> response \<Rightarrow> response" where
  "setHeader name v r = r\<lparr>res_headers := res_headers r @ [(name, v)]\<rparr>"

definition end_response :: "jsval \<Rightarrow> response \<Rightarrow> response" where
  "end_response v r = r\<lparr>ended := Some v\<rparr>"

text \<open>What the counter store answers: \<^verbatim>\<open>{total, remaining, reset}\<close>.\<close>

record limit =
  lim_total :: int
  lim_remaining :: int
  lim_reset :: int

text \<open>\<^verbatim>\<open>opts.headers\<close>: each name may be left out.\<close>

record header_opts =
  h_remaining :: "string option"
  h_reset :: "string option"
  h_total :: "string option"

text \<open>
  The options the middleware reads. A callback option is \<open>None\<close> when it is not a
  function; a callback returns a value or throws (for the asynchronous predicates:
  resolves or rejects). The options \<^verbatim>\<open>db\<close>, \<^verbatim>\<open>max\<close> and \<^verbatim>\<open>duration\<close> are only
  handed on to the store and are part of the store below.
\<close>

record opts =
  opt_id :: "(request \<Rightarrow> js_error + jsval) option"
  whitelist :: "(request \<Rightarrow> js_error + jsval) option"
  blacklist :: "(request \<Rightarrow> js_error + jsval) option"
  headers :: "header_opts option"
  disableHeader :: jsval
  throw :: jsval
  errorMessage :: jsval

text \<open>The downstream handler: its result (or what it throws) and the response it leaves.\<close>

type_synonym handler = "request \<Rightarrow> response \<Rightarrow> (js_error + jsval) \<times> response"

text \<open>
  The collaborators outside the repository: \<open>limiter_get\<close> is
  \<^verbatim>\<open>new Limiter(Object.assign({}, opts, { id })).get\<close> of the package
  \<^verbatim>\<open>ratelimiter\<close> for the given id, \<open>date_now k\<close> is what the \<open>k\<close>-th call of
  \<^verbatim>\<open>Date.now()\<close> in this request returns (counted from 0), and \<open>ms_long d\<close> is
  \<^verbatim>\<open>ms(d, { long: true })\<close> of the package \<^verbatim>\<open>ms\<close>.
\<close>

record env =
  limiter_get :: "jsval \<Rightarrow> js_error + limit"
  date_now :: "nat \<Rightarrow> int"
  ms_long :: "int \<Rightarrow> string"

text \<open>The calls the middleware makes, in the order it makes them.\<close>

datatype event =
    ResolveId
  | CallWhitelist
  | CallBlacklist
  | LimiterGet jsval
  | SetHeader string jsval
  | SetStatusCode int
  | CallHandler
  | ResEnd jsval

record outcome =
  result :: "js_error + jsval"
  res :: response
  trace :: "event list"

section \<open>The middleware\<close>

text \<open>
  \<^verbatim>\<open>keyGenerator\<close> (lines 34-39): the first truthy value of the chain; the last
  operand is returned as it is, and reading it throws when
  \<^verbatim>\<open>req.connection.socket\<close> is undefined.
\<close>

definition keyGenerator :: "request \<Rightarrow> js_error + jsval" where
  "keyGenerator req =
     (let xff = (case req_headers req ''x-forwarded-for'' of
                   None \<Rightarrow> Undefined | Some s \<Rightarrow> Str s)
      in if truthy xff then Inr xff
         else if truthy (connection_remoteAddress req) then Inr (connection_remoteAddress req)
         else if truthy (socket_remoteAddress req) then Inr (socket_remoteAddress req)
         else (case connection_socket req of
                 None \<Rightarrow> Inl (TypeError ''Cannot read properties of undefined'')
               | Some a \<Rightarrow> Inr a))"

text \<open>Lines 45-49: the header names \<open>(remaining, reset, total)\<close> with their defaults.\<close>

definition header_names :: "opts \<Rightarrow> string \<times> string \<times> string" where
  "header_names opts =
     (let h = (case headers opts of
                 None \<Rightarrow> \<lparr>h_remaining = None, h_reset = None, h_total = None\<rparr>
               | Some h \<Rightarrow> h)
      in (case h_remaining h of None \<Rightarrow> ''X-RateLimit-Remaining'' | Some n \<Rightarrow> n,
          case h_reset h of None \<Rightarrow> ''X-RateLimit-Reset'' | Some n \<Rightarrow> n,
          case h_total h of None \<Rightarrow> ''X-RateLimit-Limit'' | Some n \<Rightarrow> n))"

text \<open>Line 52: \<^verbatim>\<open>opts.id ? opts.id(req) : keyGenerator(req)\<close>.\<close>

definition resolve_id :: "opts \<Rightarrow> request \<Rightarrow> js_error + jsval" where
  "resolve_id opts req = (case opt_id opts of Some f \<Rightarrow> f req | None \<Rightarrow> keyGenerator req)"

text \<open>
  Lines 53 and 54: \<^verbatim>\<open>typeof p === 'function' ? await p(req) : false\<close>, and the call
  it makes.
\<close>

definition eval_pred :: "(request \<Rightarrow> js_error + jsval) option \<Rightarrow> request \<Rightarrow> js_error + jsval" where
  "eval_pred p req = (case p of Some f \<Rightarrow> f req | None \<Rightarrow> Inr (Bool False))"

definition pred_call :: "(request \<Rightarrow> js_error + jsval) option \<Rightarrow> event \<Rightarrow> event list" where
  "pred_call p e = (case p of Some _ \<Rightarrow> [e] | None \<Rightarrow> [])"

text \<open>Line 71: the count reported as remaining after this call.\<close>

definition calls :: "limit \<Rightarrow> int" where
  "calls l = (if lim_remaining l > 0 then lim_remaining l - 1 else 0)"

text \<open>
  Lines 85 and 86. \<^verbatim>\<open>|\<close> binds weaker than \<^verbatim>\<open>-\<close>, so both differences are
  taken whole before \<^verbatim>\<open>| 0\<close>. The arithmetic is exact here. On doubles the quotient
  of line 86 is rounded, by far less than the \<open>1 / 1000\<close> that separates two values
  of the difference while the clock reads below \<open>2 ^ 43\<close> milliseconds, so the
  truncated results are the same.
\<close>

definition delta :: "limit \<Rightarrow> int \<Rightarrow> int" where
  "delta l now = to_int32 (lim_reset l * 1000 - now)"

definition after :: "limit \<Rightarrow> int \<Rightarrow> int" where
  "after l now = to_int32 (js_trunc (real_of_int (lim_reset l) - real_of_int now / 1000))"

text \<open>Lines 76-80: the three rate-limit headers, unless they are disabled.\<close>

definition rate_headers :: "opts \<Rightarrow> limit \<Rightarrow> (string \<times> jsval) list" where
  "rate_headers opts l =
     (case header_names opts of (remaining_h, reset_h, total_h) \<Rightarrow>
        if \<not> truthy (js_or (disableHeader opts) (Bool False))
        then [(total_h, Num (lim_total l)), (remaining_h, Num (calls l)),
              (reset_h, Num (lim_reset l))]
        else [])"

text \<open>Lines 64-96: the request after the deny and bypass decisions.\<close>

definition limited :: "opts \<Rightarrow> handler \<Rightarrow> env \<Rightarrow> request \<Rightarrow> response \<Rightarrow> jsval \<Rightarrow> event list \<Rightarrow> outcome" where
  "limited opts h e req r0 idv tr0 =
     (case limiter_get e idv of
        Inl err \<Rightarrow> \<lparr>result = Inl err, res = r0, trace = tr0 @ [LimiterGet idv]\<rparr>
      | Inr l \<Rightarrow>
          let hs = rate_headers opts l;
              r1 = fold (\<lambda>(n, v). setHeader n v) hs r0;
              tr1 = tr0 @ [LimiterGet idv] @ map (\<lambda>(n, v). SetHeader n v) hs
          in if truthy (Num (lim_remaining l))
             then (case h req r1 of (x, r') \<Rightarrow>
                     \<lparr>result = x, res = r', trace = tr1 @ [CallHandler]\<rparr>)
             else
               let d = delta l (date_now e 0);
                   a = after l (date_now e 1);
                   r2 = setHeader ''Retry-After'' (Num a) r1;
                   r3 = r2\<lparr>statusCode := 429\<rparr>;
                   tr3 = tr1 @ [SetHeader ''Retry-After'' (Num a), SetStatusCode 429]
               in if truthy (throw opts)
                  then \<lparr>result = Inl (set_statusCode (new_Error (body r3)) (statusCode r3)),
                        res = r3, trace = tr3\<rparr>
                  else
                    let msg = js_or (errorMessage opts)
                                (Str (''Rate limit exceeded, retry in '' @ ms_long e d @ ''.''))
                    in \<lparr>result = Inr Undefined, res = end_response msg r3,
                         trace = tr3 @ [ResEnd msg]\<rparr>)"

text \<open>
  Lines 51-97: the request handler that \<^verbatim>\<open>ratelimit(opts, handler)\<close> returns. An
  exception of a callback or a rejected promise ends the request with that error.
\<close>

definition ratelimit :: "opts \<Rightarrow> handler \<Rightarrow> env \<Rightarrow> request \<Rightarrow> response \<Rightarrow> outcome" where
  "ratelimit opts h e req r0 =
     (case resolve_id opts req of
        Inl err \<Rightarrow> \<lparr>result = Inl err, res = r0, trace = [ResolveId]\<rparr>
      | Inr idv \<Rightarrow>
     (case eval_pred (whitelist opts) req of
        Inl err \<Rightarrow> \<lparr>result = Inl err, res = r0,
                     trace = ResolveId # pred_call (whitelist opts) CallWhitelist\<rparr>
      | Inr whitelisted \<Rightarrow>
     (let tr = ResolveId # pred_call (whitelist opts) CallWhitelist
                 @ pred_call (blacklist opts) CallBlacklist
      in case eval_pred (blacklist opts) req of
        Inl err \<Rightarrow> \<lparr>result = Inl err, res = r0, trace = tr\<rparr>
      | Inr blacklisted \<Rightarrow>
          if truthy blacklisted
          then \<lparr>result = Inl (set_statusCode (new_Error (Str ''Forbidden'')) 493),
                res = r0, trace = tr\<rparr>
          else if idv = Bool False \<or> truthy whitelisted
          then (case h req r0 of (x, r') \<Rightarrow>
                  \<lparr>result = x, res = r', trace = tr @ [CallHandler]\<rparr>)
          else limited opts h e req r0 idv tr)))"

section \<open>Reading an outcome\<close>

text \<open>
  Lines 52-54 complete without an exception, with \<open>idv\<close> the resolved identity and
  \<open>whitelisted\<close>, \<open>blacklisted\<close> the values of the two predicates (\<open>Bool False\<close>
  for a predicate that is not configured).
\<close>

definition resolved :: "opts \<Rightarrow> request \<Rightarrow> jsval \<Rightarrow> jsval \<Rightarrow> jsval \<Rightarrow> bool" where
  "resolved opts req idv whitelisted blacklisted \<longleftrightarrow>
     resolve_id opts req = Inr idv \<and>
     eval_pred (whitelist opts) req = Inr whitelisted \<and>
     eval_pred (blacklist opts) req = Inr blacklisted"

text \<open>The calls of lines 52-54 when none of them throws.\<close>

definition prefix_trace :: "opts \<Rightarrow> event list" where
  "prefix_trace opts =
     ResolveId # pred_call (whitelist opts) CallWhitelist @ pred_call (blacklist opts) CallBlacklist"

text \<open>The \<^verbatim>\<open>setHeader\<close> calls of a trace, in order.\<close>

fun header_writes :: "event list \<Rightarrow> (string \<times> jsval) list" where
  "header_writes [] = []"
| "header_writes (SetHeader n v # es) = (n, v) # header_writes es"
| "header_writes (_ # es) = header_writes es"

text \<open>\<open>precedes a b tr\<close>: the call \<open>a\<close> occurs in \<open>tr\<close>, and no call \<open>b\<close> before it.\<close>

fun precedes :: "event \<Rightarrow> event \<Rightarrow> event list \<Rightarrow> bool" where
  "precedes a b [] = False"
| "precedes a b (x # xs) = (if x = b then False else if x = a then True else precedes a b xs)"

section \<open>Concrete requests\<close>

text \<open>
  \<open>default_opts\<close> is the empty options object, which is also what
  \<^verbatim>\<open>ratelimit(handler)\<close> runs with (lines 41-44). The store of \<open>ex_env\<close> answers
  \<^verbatim>\<open>{total: 10, remaining: r, reset: 100}\<close> and its clock reads \<open>now\<close>; its duration
  formatter prints the way \<^verbatim>\<open>ms\<close> prints durations below one second.
\<close>

definition default_opts :: opts where
  "default_opts = \<lparr>opt_id = None, whitelist = None, blacklist = None, headers = None,
     disableHeader = Undefined, throw = Undefined, errorMessage = Undefined\<rparr>"

definition ex_req :: request where
  "ex_req = \<lparr>req_headers = [''x-forwarded-for'' \<mapsto> ''203.0.113.7''],
     connection_remoteAddress = Str ''10.0.0.1'', socket_remoteAddress = Str ''10.0.0.1'',
     connection_socket = None\<rparr>"

definition ex_res :: response where
  "ex_res = \<lparr>statusCode = 200, res_headers = [], body = Undefined, ended = None\<rparr>"

definition ex_handler :: handler where
  "ex_handler req r = (Inr (Str ''ok''), end_response (Str ''ok'') r)"

definition ex_env :: "int \<Rightarrow> int \<Rightarrow> env" where
  "ex_env r now =
     \<lparr>limiter_get = (\<lambda>_. Inr \<lparr>lim_total = 10, lim_remaining = r, lim_reset = 100\<rparr>),
      date_now = (\<lambda>_. now),
      ms_long = (\<lambda>d. show_int d @ '' ms'')\<rparr>"

text \<open>
  \<open>deny_opts\<close>: the id resolver answers \<^verbatim>\<open>false\<close> and both predicates answer
  \<^verbatim>\<open>true\<close>. \<open>allow_opts\<close>: only the whitelist answers \<^verbatim>\<open>true\<close>.
\<close>

definition deny_opts :: opts where
  "deny_opts = default_opts\<lparr>opt_id := Some (\<lambda>_. Inr (Bool False)),
     whitelist := Some (\<lambda>_. Inr (Bool True)), blacklist := Some (\<lambda>_. Inr (Bool True))\<rparr>"

definition allow_opts :: opts where
  "allow_opts = default_opts\<lparr>whitelist := Some (\<lambda>_. Inr (Bool True)),
     blacklist := Some (\<lambda>_. Inr (Bool False))\<rparr>"

text \<open>
  \<open>month_env f\<close>: a window of 30 days that has just begun. The store answers
  \<^verbatim>\<open>{total: 100, remaining: 0, reset: 1702592000}\<close> and the clock reads
  1700000000000, that is 2592000000 milliseconds before the reset; \<open>f\<close> is the duration
  formatter.
\<close>

definition month_env :: "(int \<Rightarrow> string) \<Rightarrow> env" where
  "month_env f =
     \<lparr>limiter_get = (\<lambda>_. Inr \<lparr>lim_total = 100, lim_remaining = 0, lim_reset = 1702592000\<rparr>),
      date_now = (\<lambda>_. 1700000000000),
      ms_long = f\<rparr>"

text \<open>
  \<open>dead_req\<close>: a request without a forwarded-for header whose socket is destroyed.
  \<^verbatim>\<open>remoteAddress\<close> is undefined on \<^verbatim>\<open>req.connection\<close> and on \<^verbatim>\<open>req.socket\<close>
  (one object with two names in Node), and there is no \<^verbatim>\<open>req.connection.socket\<close>.
\<close>

definition dead_req :: request where
  "dead_req = \<lparr>req_headers = Map.empty, connection_remoteAddress = Undefined,
     socket_remoteAddress = Undefined, connection_socket = None\<rparr>"

section \<open>The paths of a request\<close>

lemma fold_setHeader:
  "fold (\<lambda>(n, v). setHeader n v) hs r = r\<lparr>res_headers := res_headers r @ hs\<rparr>"
  by (induction hs arbitrary: r) (auto simp: setHeader_def)

lemma header_writes_append: "header_writes (xs @ ys) = header_writes xs @ header_writes ys"
  by (induction xs rule: header_writes.induct) auto

lemma header_writes_map: "header_writes (map (\<lambda>(n, v). SetHeader n v) hs) = hs"
  by (induction hs) auto

lemma set_prefix_trace: "set (prefix_trace opts) \<subseteq> {ResolveId, CallWhitelist, CallBlacklist}"
  by (auto simp: prefix_trace_def pred_call_def split: option.splits)

lemma header_writes_prefix: "header_writes (prefix_trace opts) = []"
  by (auto simp: prefix_trace_def pred_call_def split: option.splits)

lemma prefix_trace_no_handler: "CallHandler \<notin> set (prefix_trace opts)"
  using set_prefix_trace [of opts] by auto

lemma prefix_trace_no_limiter: "LimiterGet i \<notin> set (prefix_trace opts)"
  using set_prefix_trace [of opts] by auto

lemma prefix_trace_no_end: "ResEnd m \<notin> set (prefix_trace opts)"
  using set_prefix_trace [of opts] by auto

text \<open>Deny: lines 56-60.\<close>

lemma ratelimit_deny:
  assumes "resolved opts req idv w b" "truthy b"
  shows "ratelimit opts h e req r0 =
     \<lparr>result = Inl (Error ''Forbidden'' (Some 493)), res = r0, trace = prefix_trace opts\<rparr>"
  using assms by (simp add: ratelimit_def resolved_def prefix_trace_def new_Error_def)

text \<open>Bypass: line 62.\<close>

lemma ratelimit_bypass:
  assumes "resolved opts req idv w b" "\<not> truthy b" "idv = Bool False \<or> truthy w"
  shows "ratelimit opts h e req r0 =
     \<lparr>result = fst (h req r0), res = snd (h req r0), trace = prefix_trace opts @ [CallHandler]\<rparr>"
  using assms by (auto simp: ratelimit_def resolved_def prefix_trace_def split: prod.splits)

text \<open>Otherwise the store is asked: lines 64-96.\<close>

lemma ratelimit_limited:
  assumes "resolved opts req idv w b" "\<not> truthy b" "idv \<noteq> Bool False" "\<not> truthy w"
  shows "ratelimit opts h e req r0 = limited opts h e req r0 idv (prefix_trace opts)"
  using assms by (simp add: ratelimit_def resolved_def prefix_trace_def)

text \<open>Admit: line 83.\<close>

lemma limited_admit:
  assumes "limiter_get e idv = Inr l" "lim_remaining l \<noteq> 0"
  shows "limited opts h e req r0 idv tr0 =
     (let r1 = r0\<lparr>res_headers := res_headers r0 @ rate_headers opts l\<rparr> in
      \<lparr>result = fst (h req r1), res = snd (h req r1),
       trace = tr0 @ [LimiterGet idv] @ map (\<lambda>(n, v). SetHeader n v) (rate_headers opts l)
                 @ [CallHandler]\<rparr>)"
  using assms by (simp add: limited_def fold_setHeader Let_def split: prod.splits)

text \<open>Throttle: lines 85-96.\<close>

lemma limited_throttle:
  assumes "limiter_get e idv = Inr l" "lim_remaining l = 0"
  shows "limited opts h e req r0 idv tr0 =
     (let a = after l (date_now e 1);
          r3 = r0\<lparr>res_headers := res_headers r0 @ rate_headers opts l @ [(''Retry-After'', Num a)],
                  statusCode := 429\<rparr>;
          tr3 = tr0 @ [LimiterGet idv] @ map (\<lambda>(n, v). SetHeader n v) (rate_headers opts l)
                  @ [SetHeader ''Retry-After'' (Num a), SetStatusCode 429];
          msg = js_or (errorMessage opts)
                  (Str (''Rate limit exceeded, retry in '' @ ms_long e (delta l (date_now e 0)) @ ''.''))
      in if truthy (throw opts)
         then \<lparr>result = Inl (set_statusCode (new_Error (body r0)) 429), res = r3, trace = tr3\<rparr>
         else \<lparr>result = Inr Undefined, res = r3\<lparr>ended := Some msg\<rparr>, trace = tr3 @ [ResEnd msg]\<rparr>)"
  using assms by (simp add: limited_def fold_setHeader Let_def setHeader_def end_response_def)

text \<open>The store fails: the error of line 68 ends the request.\<close>

lemma limited_error:
  assumes "limiter_get e idv = Inl err"
  shows "limited opts h e req r0 idv tr0 = \<lparr>result = Inl err, res = r0, trace = tr0 @ [LimiterGet idv]\<rparr>"
  using assms by (simp add: limited_def)

lemma limited_header_writes:
  assumes "limiter_get e idv = Inr l"
  shows "header_writes (trace (limited opts h e req r0 idv tr0)) =
     header_writes tr0 @ rate_headers opts l @
       (if lim_remaining l = 0 then [(''Retry-After'', Num (after l (date_now e 1)))] else [])"
proof (cases "lim_remaining l = 0")
  case True
  show ?thesis
    by (simp add: limited_throttle [OF assms True] Let_def True header_writes_append
        header_writes_map)
next
  case False
  show ?thesis
    by (simp add: limited_admit [OF assms False] Let_def False header_writes_append
        header_writes_map)
qed

lemma limited_trace_extends: "\<exists>tl. trace (limited opts h e req r0 idv tr0) = tr0 @ tl"
proof (cases "limiter_get e idv")
  case (Inl err)
  then show ?thesis by (simp add: limited_error)
next
  case (Inr l)
  show ?thesis
  proof (cases "lim_remaining l = 0")
    case True
    show ?thesis by (simp add: limited_throttle [OF Inr True] Let_def)
  next
    case False
    show ?thesis by (simp add: limited_admit [OF Inr False] Let_def)
  qed
qed

lemma limited_trace_first: "take (Suc 0) (trace (limited opts h e req r0 idv (x # tr))) = [x]"
proof -
  obtain tl where "trace (limited opts h e req r0 idv (x # tr)) = (x # tr) @ tl"
    using limited_trace_extends by blast
  then show ?thesis by simp
qed

lemma ratelimit_trace_first: "take 1 (trace (ratelimit opts h e req r0)) = [ResolveId]"
  by (simp add: ratelimit_def Let_def limited_trace_first split: sum.splits prod.splits)

lemma ratelimit_header_writes:
  "header_writes (trace (ratelimit opts h e req r0)) = [] \<or>
   (\<exists>l. header_writes (trace (ratelimit opts h e req r0)) =
      rate_headers opts l @
        (if lim_remaining l = 0 then [(''Retry-After'', Num (after l (date_now e 1)))] else []))"
proof (cases "resolve_id opts req")
  case (Inl err)
  then show ?thesis by (simp add: ratelimit_def)
next
  case idv: (Inr idv)
  show ?thesis
  proof (cases "eval_pred (whitelist opts) req")
    case (Inl err)
    then show ?thesis
      using idv by (auto simp: ratelimit_def pred_call_def split: option.splits)
  next
    case w: (Inr w)
    show ?thesis
    proof (cases "eval_pred (blacklist opts) req")
      case (Inl err)
      then show ?thesis
        using idv w header_writes_prefix [of opts]
        by (simp add: ratelimit_def prefix_trace_def)
    next
      case b: (Inr b)
      have r: "resolved opts req idv w b"
        using idv w b by (simp add: resolved_def)
      consider (deny) "truthy b" | (bypass) "\<not> truthy b" "idv = Bool False \<or> truthy w"
        | (limited) "\<not> truthy b" "idv \<noteq> Bool False" "\<not> truthy w"
        by blast
      then show ?thesis
      proof cases
        case deny
        then show ?thesis by (simp add: ratelimit_deny [OF r] header_writes_prefix)
      next
        case bypass
        then show ?thesis
          by (simp add: ratelimit_bypass [OF r] header_writes_prefix header_writes_append)
      next
        case limited
        show ?thesis
        proof (cases "limiter_get e idv")
          case (Inl err)
          then show ?thesis
            by (simp add: ratelimit_limited [OF r limited] limited_error header_writes_prefix
                header_writes_append)
        next
          case (Inr l)
          have "header_writes (trace (ratelimit opts h e req r0)) =
                  rate_headers opts l @
                  (if lim_remaining l = 0 then [(''Retry-After'', Num (after l (date_now e 1)))] else [])"
            by (simp add: ratelimit_limited [OF r limited] limited_header_writes [OF Inr]
                header_writes_prefix)
          then show ?thesis by blast
        qed
      qed
    qed
  qed
qed

section \<open>The arithmetic of lines 85 and 86\<close>

lemma js_trunc_of_int: "js_trunc (real_of_int k) = k"
  by (simp add: js_trunc_def)

lemma js_trunc_open:
  assumes "now \<le> r * 1000"
  shows "js_trunc (real_of_int r - real_of_int now / 1000) = r - \<lceil>real_of_int now / 1000\<rceil>"
proof -
  have "0 \<le> real_of_int r - real_of_int now / 1000"
    using assms by (simp add: field_simps)
  then show ?thesis
    by (simp add: js_trunc_def ceiling_def) linarith
qed

lemma js_trunc_closed:
  assumes "r * 1000 < now"
  shows "js_trunc (real_of_int r - real_of_int now / 1000) = r - \<lfloor>real_of_int now / 1000\<rfloor>"
proof -
  have "\<not> 0 \<le> real_of_int r - real_of_int now / 1000"
    using assms by (simp add: field_simps)
  then show ?thesis
    by (simp add: js_trunc_def ceiling_def)
qed

lemma to_int32_id: "- (2 ^ 31) \<le> n \<Longrightarrow> n < 2 ^ 31 \<Longrightarrow> to_int32 n = n"
  by (simp add: to_int32_def)

lemma delta_exact:
  "- (2 ^ 31) \<le> lim_reset l * 1000 - now \<Longrightarrow> lim_reset l * 1000 - now < 2 ^ 31 \<Longrightarrow>
   delta l now = lim_reset l * 1000 - now"
  by (simp add: delta_def to_int32_id)

lemma after_exact_seconds: "after l ((lim_reset l - k) * 1000) = to_int32 k"
proof -
  have "real_of_int (lim_reset l) - real_of_int ((lim_reset l - k) * 1000) / 1000 = real_of_int k"
    by (simp add: field_simps)
  then show ?thesis
    by (simp only: after_def js_trunc_of_int)
qed

section \<open>Facts about the concrete requests\<close>

lemma resolved_default:
  "resolved default_opts ex_req (Str ''203.0.113.7'') (Bool False) (Bool False)"
  by (simp add: resolved_def resolve_id_def eval_pred_def default_opts_def keyGenerator_def
      ex_req_def)

lemma resolved_deny: "resolved deny_opts ex_req (Bool False) (Bool True) (Bool True)"
  by (simp add: resolved_def resolve_id_def eval_pred_def default_opts_def deny_opts_def)

lemma resolved_allow:
  "resolved allow_opts ex_req (Str ''203.0.113.7'') (Bool True) (Bool False)"
  by (simp add: resolved_def resolve_id_def eval_pred_def default_opts_def allow_opts_def
      keyGenerator_def ex_req_def)

lemma ex_env_sel:
  "limiter_get (ex_env r n) i = Inr \<lparr>lim_total = 10, lim_remaining = r, lim_reset = 100\<rparr>"
  "date_now (ex_env r n) k = n"
  "ms_long (ex_env r n) d = show_int d @ '' ms''"
  by (simp_all add: ex_env_def)

lemma rate_headers_default:
  "rate_headers default_opts l =
     [(''X-RateLimit-Limit'', Num (lim_total l)), (''X-RateLimit-Remaining'', Num (calls l)),
      (''X-RateLimit-Reset'', Num (lim_reset l))]"
  by (simp add: rate_headers_def header_names_def default_opts_def js_or_def)

section \<open>Throttling: status and Retry-After\<close>

text \<open>
  Claim C1, as amended. For every request that is neither bypassed nor denied and whose
  store answer has \<open>remaining = 0\<close>, the middleware sets the status to 429, writes the
  header \<^verbatim>\<open>Retry-After\<close> last, after the rate-limit headers, and never calls the
  downstream handler. The value of \<^verbatim>\<open>Retry-After\<close> is \<^verbatim>\<open>reset - now / 1000\<close>
  with its fraction dropped towards zero, as a signed 32-bit integer: that is
  \<open>reset - \<lceil>now / 1000\<rceil>\<close> while the window is still open and
  \<open>reset - \<lfloor>now / 1000\<rfloor>\<close> once it has closed. At \<open>now = (reset - 5) * 1000\<close> it
  is 5.
\<close>

theorem throttle_status_retry_after:
  assumes "resolved opts req idv w b" and "\<not> truthy b" and "idv \<noteq> Bool False"
    and "\<not> truthy w" and "limiter_get e idv = Inr l" and "lim_remaining l = 0"
  shows "statusCode (res (ratelimit opts h e req rs)) = 429
       \<and> header_writes (trace (ratelimit opts h e req rs)) =
           rate_headers opts l @ [(''Retry-After'', Num (after l (date_now e 1)))]
       \<and> CallHandler \<notin> set (trace (ratelimit opts h e req rs))
       \<and> after l (date_now e 1) =
           to_int32 (if date_now e 1 \<le> lim_reset l * 1000
                     then lim_reset l - \<lceil>real_of_int (date_now e 1) / 1000\<rceil>
                     else lim_reset l - \<lfloor>real_of_int (date_now e 1) / 1000\<rfloor>)
       \<and> (date_now e 1 = (lim_reset l - 5) * 1000 \<longrightarrow> after l (date_now e 1) = 5)"
proof -
  let ?out = "ratelimit opts h e req rs"
  have out: "?out = limited opts h e req rs idv (prefix_trace opts)"
    using assms(1-4) by (rule ratelimit_limited)
  have status: "statusCode (res ?out) = 429"
    by (simp add: out limited_throttle [OF assms(5,6)] Let_def)
  have writes: "header_writes (trace ?out) =
      rate_headers opts l @ [(''Retry-After'', Num (after l (date_now e 1)))]"
    by (simp add: out limited_header_writes [OF assms(5)] assms(6) header_writes_prefix)
  have "CallHandler \<notin> set (map (\<lambda>(n, v). SetHeader n v) hs)" for hs
    by auto
  then have handler: "CallHandler \<notin> set (trace ?out)"
    by (simp add: out limited_throttle [OF assms(5,6)] Let_def prefix_trace_no_handler)
  have formula: "after l now =
      to_int32 (if now \<le> lim_reset l * 1000
                then lim_reset l - \<lceil>real_of_int now / 1000\<rceil>
                else lim_reset l - \<lfloor>real_of_int now / 1000\<rfloor>)" for now
    by (simp add: after_def js_trunc_open js_trunc_closed)
  have five: "after l ((lim_reset l - 5) * 1000) = 5"
    using after_exact_seconds [of l 5] by (simp add: to_int32_def)
  show ?thesis
    using status writes handler formula five by simp
qed

text \<open>
  The store answers \<^verbatim>\<open>{total: 10, remaining: 0, reset: 100}\<close> and the clock reads
  95000.
\<close>

theorem throttle_status_retry_after_witness:
  "resolved default_opts ex_req (Str ''203.0.113.7'') (Bool False) (Bool False)
   \<and> limiter_get (ex_env 0 95000) (Str ''203.0.113.7'')
       = Inr \<lparr>lim_total = 10, lim_remaining = 0, lim_reset = 100\<rparr>
   \<and> date_now (ex_env 0 95000) 1 = (100 - 5) * 1000
   \<and> statusCode (res (ratelimit default_opts ex_handler (ex_env 0 95000) ex_req ex_res)) = 429
   \<and> header_writes (trace (ratelimit default_opts ex_handler (ex_env 0 95000) ex_req ex_res)) =
       [(''X-RateLimit-Limit'', Num 10), (''X-RateLimit-Remaining'', Num 0),
        (''X-RateLimit-Reset'', Num 100), (''Retry-After'', Num 5)]
   \<and> CallHandler \<notin> set (trace (ratelimit default_opts ex_handler (ex_env 0 95000) ex_req ex_res))"
proof -
  let ?l = "\<lparr>lim_total = 10, lim_remaining = 0, lim_reset = 100\<rparr>"
  have r: "resolved default_opts ex_req (Str ''203.0.113.7'') (Bool False) (Bool False)"
    by (rule resolved_default)
  have g: "limiter_get (ex_env 0 95000) (Str ''203.0.113.7'') = Inr ?l"
    by (simp add: ex_env_sel)
  show ?thesis
    using r g
      throttle_status_retry_after [OF r _ _ _ g, where h = ex_handler and rs = ex_res]
    by (simp add: ex_env_sel rate_headers_default calls_def)
qed

text \<open>
  Claim C1 as it was stated gives \<open>reset - \<lfloor>now / 1000\<rfloor>\<close> for every throttled
  request. With \<open>reset = 100\<close> and the clock at 95500 that would be 5; the header is 4.
\<close>

theorem retry_after_floor_counterexample:
  "limiter_get (ex_env 0 95500) (Str ''203.0.113.7'')
     = Inr \<lparr>lim_total = 10, lim_remaining = 0, lim_reset = 100\<rparr>
   \<and> date_now (ex_env 0 95500) 1 = 95500
   \<and> header_writes (trace (ratelimit default_opts ex_handler (ex_env 0 95500) ex_req ex_res)) =
     [(''X-RateLimit-Limit'', Num 10), (''X-RateLimit-Remaining'', Num 0),
      (''X-RateLimit-Reset'', Num 100), (''Retry-After'', Num 4)]
   \<and> (100 :: int) - \<lfloor>95500 / 1000 :: real\<rfloor> = 5"
proof -
  let ?l = "\<lparr>lim_total = 10, lim_remaining = 0, lim_reset = 100\<rparr>"
  have g: "limiter_get (ex_env 0 95500) (Str ''203.0.113.7'') = Inr ?l"
    by (simp add: ex_env_sel)
  have a: "after ?l 95500 = 4"
    by (simp add: after_def js_trunc_def to_int32_def)
  have "header_writes (trace (ratelimit default_opts ex_handler (ex_env 0 95500) ex_req ex_res)) =
      rate_headers default_opts ?l @ [(''Retry-After'', Num (after ?l 95500))]"
    by (simp add: ratelimit_limited [OF resolved_default] limited_header_writes [OF g]
        header_writes_prefix ex_env_sel)
  then show ?thesis
    by (simp add: rate_headers_default calls_def a ex_env_sel)
qed

section \<open>The remaining header\<close>

text \<open>
  Claim C2. For every request that is neither bypassed nor denied, and every answer of
  the store, the header writes of the middleware are exactly these: unless the headers
  are disabled, the total, then the remaining header with the value
  \<open>remaining - 1\<close> when \<open>remaining > 0\<close> and 0 otherwise, then the reset; and
  \<^verbatim>\<open>Retry-After\<close> when the request is throttled. The value written to the remaining
  header is never negative.
\<close>

theorem remaining_header_value:
  assumes "resolved opts req idv w b" and "\<not> truthy b" and "idv \<noteq> Bool False"
    and "\<not> truthy w" and "limiter_get e idv = Inr l"
  shows "header_writes (trace (ratelimit opts h e req rs)) =
           (if truthy (disableHeader opts) then []
            else [(snd (snd (header_names opts)), Num (lim_total l)),
                  (fst (header_names opts),
                     Num (if 0 < lim_remaining l then lim_remaining l - 1 else 0)),
                  (fst (snd (header_names opts)), Num (lim_reset l))])
           @ (if lim_remaining l = 0 then [(''Retry-After'', Num (after l (date_now e 1)))]
              else [])
       \<and> 0 \<le> (if 0 < lim_remaining l then lim_remaining l - 1 else 0)"
proof -
  have hs: "rate_headers opts l =
      (if truthy (disableHeader opts) then []
       else [(snd (snd (header_names opts)), Num (lim_total l)),
             (fst (header_names opts),
                Num (if 0 < lim_remaining l then lim_remaining l - 1 else 0)),
             (fst (snd (header_names opts)), Num (lim_reset l))])"
    by (simp add: rate_headers_def js_or_def calls_def split: prod.splits)
  have "header_writes (trace (ratelimit opts h e req rs)) =
      rate_headers opts l @
        (if lim_remaining l = 0 then [(''Retry-After'', Num (after l (date_now e 1)))] else [])"
    by (simp add: ratelimit_limited [OF assms(1-4)] limited_header_writes [OF assms(5)]
        header_writes_prefix)
  then show ?thesis
    by (simp add: hs)
qed

text \<open>The store answers with 7 remaining, and with 0 remaining.\<close>

theorem remaining_header_value_witness:
  "resolved default_opts ex_req (Str ''203.0.113.7'') (Bool False) (Bool False)
   \<and> limiter_get (ex_env 7 95000) (Str ''203.0.113.7'')
        = Inr \<lparr>lim_total = 10, lim_remaining = 7, lim_reset = 100\<rparr>
   \<and> header_writes (trace (ratelimit default_opts ex_handler (ex_env 7 95000) ex_req ex_res)) =
       [(''X-RateLimit-Limit'', Num 10), (''X-RateLimit-Remaining'', Num 6),
        (''X-RateLimit-Reset'', Num 100)]
   \<and> header_writes (trace (ratelimit default_opts ex_handler (ex_env 0 95000) ex_req ex_res)) =
       [(''X-RateLimit-Limit'', Num 10), (''X-RateLimit-Remaining'', Num 0),
        (''X-RateLimit-Reset'', Num 100), (''Retry-After'', Num 5)]"
proof -
  have r: "resolved default_opts ex_req (Str ''203.0.113.7'') (Bool False) (Bool False)"
    by (rule resolved_default)
  have n: "header_names default_opts =
      (''X-RateLimit-Remaining'', ''X-RateLimit-Reset'', ''X-RateLimit-Limit'')"
    by (simp add: header_names_def default_opts_def)
  have d: "\<not> truthy (disableHeader default_opts)"
    by (simp add: default_opts_def)
  have a: "after \<lparr>lim_total = 10, lim_remaining = 0, lim_reset = 100\<rparr> 95000 = 5"
    by (simp add: after_def js_trunc_def to_int32_def)
  show ?thesis
    using r
      remaining_header_value [OF r _ _ _ ex_env_sel(1), where h = ex_handler and rs = ex_res
        and r1 = 7 and n1 = 95000]
      remaining_header_value [OF r _ _ _ ex_env_sel(1), where h = ex_handler and rs = ex_res
        and r1 = 0 and n1 = 95000]
    by (simp add: n d a ex_env_sel)
qed

section \<open>The deny list\<close>

text \<open>
  Claim C3. Whenever the blacklist predicate returns a true value, the request fails with
  the error \<^verbatim>\<open>Forbidden\<close> carrying status code 493, the downstream handler and the
  counter store are not called and the response is left as it was, whatever the identity
  resolver (\<open>idv\<close>, \<^verbatim>\<open>false\<close> included) and the whitelist predicate (\<open>w\<close>)
  returned.
\<close>

theorem blacklist_forbidden:
  assumes "resolved opts req idv w b" and "truthy b"
  shows "result (ratelimit opts h e req rs) = Inl (Error ''Forbidden'' (Some 493))
       \<and> CallHandler \<notin> set (trace (ratelimit opts h e req rs))
       \<and> (\<forall>i. LimiterGet i \<notin> set (trace (ratelimit opts h e req rs)))
       \<and> res (ratelimit opts h e req rs) = rs"
proof -
  have out: "ratelimit opts h e req rs =
      \<lparr>result = Inl (Error ''Forbidden'' (Some 493)), res = rs, trace = prefix_trace opts\<rparr>"
    using assms by (rule ratelimit_deny)
  have "CallHandler \<notin> set (prefix_trace opts)"
    by (rule prefix_trace_no_handler)
  moreover have "LimiterGet i \<notin> set (prefix_trace opts)" for i
    by (rule prefix_trace_no_limiter)
  ultimately show ?thesis
    by (simp add: out)
qed

text \<open>The id resolver answers \<^verbatim>\<open>false\<close>, both predicates answer \<^verbatim>\<open>true\<close>.\<close>

theorem blacklist_forbidden_witness:
  "resolved deny_opts ex_req (Bool False) (Bool True) (Bool True)
   \<and> truthy (Bool True)
   \<and> result (ratelimit deny_opts ex_handler (ex_env 3 95000) ex_req ex_res)
       = Inl (Error ''Forbidden'' (Some 493))
   \<and> CallHandler \<notin> set (trace (ratelimit deny_opts ex_handler (ex_env 3 95000) ex_req ex_res))
   \<and> res (ratelimit deny_opts ex_handler (ex_env 3 95000) ex_req ex_res) = ex_res"
proof -
  have t: "truthy (Bool True)" by simp
  show ?thesis
    using resolved_deny
      blacklist_forbidden [OF resolved_deny t, where h = ex_handler and e = "ex_env 3 95000"
        and rs = ex_res]
    by simp
qed

section \<open>Bypass\<close>

text \<open>
  Claim C4. When the blacklist does not deny the request and the identity resolver
  returned \<^verbatim>\<open>false\<close> or the whitelist predicate returned a true value, the middleware
  calls the downstream handler with the response as it received it, returns the handler's
  result, never asks the counter store and writes no header.
\<close>

theorem bypass_calls_handler:
  assumes "resolved opts req idv w b" and "\<not> truthy b" and "idv = Bool False \<or> truthy w"
  shows "result (ratelimit opts h e req rs) = fst (h req rs)
       \<and> res (ratelimit opts h e req rs) = snd (h req rs)
       \<and> trace (ratelimit opts h e req rs) = prefix_trace opts @ [CallHandler]
       \<and> (\<forall>i. LimiterGet i \<notin> set (trace (ratelimit opts h e req rs)))
       \<and> header_writes (trace (ratelimit opts h e req rs)) = []"
proof -
  have out: "ratelimit opts h e req rs =
      \<lparr>result = fst (h req rs), res = snd (h req rs),
       trace = prefix_trace opts @ [CallHandler]\<rparr>"
    using assms by (rule ratelimit_bypass)
  have "LimiterGet i \<notin> set (prefix_trace opts @ [CallHandler])" for i
    by (simp add: prefix_trace_no_limiter)
  moreover have "header_writes (prefix_trace opts @ [CallHandler]) = []"
    by (simp add: header_writes_append header_writes_prefix)
  ultimately show ?thesis
    by (simp add: out)
qed

text \<open>A whitelisted request, with an exhausted quota in the store.\<close>

theorem bypass_calls_handler_witness:
  "resolved allow_opts ex_req (Str ''203.0.113.7'') (Bool True) (Bool False)
   \<and> \<not> truthy (Bool False)
   \<and> truthy (Bool True)
   \<and> result (ratelimit allow_opts ex_handler (ex_env 0 95000) ex_req ex_res) = Inr (Str ''ok'')
   \<and> trace (ratelimit allow_opts ex_handler (ex_env 0 95000) ex_req ex_res) =
       [ResolveId, CallWhitelist, CallBlacklist, CallHandler]
   \<and> header_writes (trace (ratelimit allow_opts ex_handler (ex_env 0 95000) ex_req ex_res)) = []"
proof -
  have f: "\<not> truthy (Bool False)" and t: "Str ''203.0.113.7'' = Bool False \<or> truthy (Bool True)"
    by simp_all
  have p: "prefix_trace allow_opts = [ResolveId, CallWhitelist, CallBlacklist]"
    by (simp add: prefix_trace_def pred_call_def allow_opts_def default_opts_def)
  show ?thesis
    using resolved_allow
      bypass_calls_handler [OF resolved_allow f t, where h = ex_handler and e = "ex_env 0 95000"
        and rs = ex_res]
    by (simp add: p ex_handler_def)
qed

section \<open>The headers of an admitted request\<close>

text \<open>
  Claim C5, as amended. For a request that is neither bypassed nor denied, with no
  header names configured and the headers not disabled, and the store answer
  \<^verbatim>\<open>{total: 10, remaining: 3, reset: T}\<close>, the middleware writes
  \<^verbatim>\<open>X-RateLimit-Limit: 10\<close>, \<^verbatim>\<open>X-RateLimit-Remaining: 2\<close> and
  \<^verbatim>\<open>X-RateLimit-Reset: T\<close>, then calls the downstream handler once, with the
  response that carries these headers, and returns its result.
\<close>

theorem default_headers_round_trip:
  assumes "resolved opts req idv w b" and "\<not> truthy b" and "idv \<noteq> Bool False"
    and "\<not> truthy w"
    and "limiter_get e idv = Inr \<lparr>lim_total = 10, lim_remaining = 3, lim_reset = T\<rparr>"
    and "headers opts = None" and "\<not> truthy (disableHeader opts)"
  shows "header_writes (trace (ratelimit opts h e req rs)) =
           [(''X-RateLimit-Limit'', Num 10), (''X-RateLimit-Remaining'', Num 2),
            (''X-RateLimit-Reset'', Num T)]
       \<and> last (trace (ratelimit opts h e req rs)) = CallHandler
       \<and> length (filter (\<lambda>x. x = CallHandler) (trace (ratelimit opts h e req rs))) = 1
       \<and> result (ratelimit opts h e req rs) =
           fst (h req (rs\<lparr>res_headers := res_headers rs @
             [(''X-RateLimit-Limit'', Num 10), (''X-RateLimit-Remaining'', Num 2),
              (''X-RateLimit-Reset'', Num T)]\<rparr>))
       \<and> res (ratelimit opts h e req rs) =
           snd (h req (rs\<lparr>res_headers := res_headers rs @
             [(''X-RateLimit-Limit'', Num 10), (''X-RateLimit-Remaining'', Num 2),
              (''X-RateLimit-Reset'', Num T)]\<rparr>))"
proof -
  let ?l = "\<lparr>lim_total = 10, lim_remaining = 3, lim_reset = T\<rparr>"
  have hs: "rate_headers opts ?l =
      [(''X-RateLimit-Limit'', Num 10), (''X-RateLimit-Remaining'', Num 2),
       (''X-RateLimit-Reset'', Num T)]"
    using assms(6,7) by (simp add: rate_headers_def header_names_def js_or_def calls_def)
  have nz: "lim_remaining ?l \<noteq> 0" by simp
  have no: "filter (\<lambda>x. x = CallHandler) (prefix_trace opts) = []"
    using prefix_trace_no_handler [of opts] by (auto simp: filter_empty_conv)
  show ?thesis
    by (simp add: ratelimit_limited [OF assms(1-4)] limited_admit [OF assms(5) nz] Let_def hs
        header_writes_append header_writes_prefix no del: limit.simps)
qed

text \<open>The empty options, the store answer with \<open>T = 100\<close>.\<close>

theorem default_headers_round_trip_witness:
  "resolved default_opts ex_req (Str ''203.0.113.7'') (Bool False) (Bool False)
   \<and> limiter_get (ex_env 3 95000) (Str ''203.0.113.7'')
        = Inr \<lparr>lim_total = 10, lim_remaining = 3, lim_reset = 100\<rparr>
   \<and> headers default_opts = None
   \<and> \<not> truthy (disableHeader default_opts)
   \<and> header_writes (trace (ratelimit default_opts ex_handler (ex_env 3 95000) ex_req ex_res)) =
        [(''X-RateLimit-Limit'', Num 10), (''X-RateLimit-Remaining'', Num 2),
         (''X-RateLimit-Reset'', Num 100)]
   \<and> last (trace (ratelimit default_opts ex_handler (ex_env 3 95000) ex_req ex_res)) = CallHandler
   \<and> result (ratelimit default_opts ex_handler (ex_env 3 95000) ex_req ex_res) = Inr (Str ''ok'')"
proof -
  have r: "resolved default_opts ex_req (Str ''203.0.113.7'') (Bool False) (Bool False)"
    by (rule resolved_default)
  have g: "limiter_get (ex_env 3 95000) (Str ''203.0.113.7'')
        = Inr \<lparr>lim_total = 10, lim_remaining = 3, lim_reset = 100\<rparr>"
    by (simp add: ex_env_sel)
  have n: "headers default_opts = None" and d: "\<not> truthy (disableHeader default_opts)"
    by (simp_all add: default_opts_def)
  show ?thesis
    using r g n d
      default_headers_round_trip [OF r _ _ _ g n d, where h = ex_handler and rs = ex_res]
    by (simp add: ex_handler_def)
qed

text \<open>
  Claim C5 as it was stated asks for the default header names only. With
  \<^verbatim>\<open>disableHeader: true\<close> the names are the default ones and the store answer is the
  same, yet no header is written and the handler gets the response unchanged.
\<close>

theorem disabled_headers_counterexample:
  "resolved (default_opts\<lparr>disableHeader := Bool True\<rparr>) ex_req
      (Str ''203.0.113.7'') (Bool False) (Bool False)
   \<and> headers (default_opts\<lparr>disableHeader := Bool True\<rparr>) = None
   \<and> limiter_get (ex_env 3 95000) (Str ''203.0.113.7'')
        = Inr \<lparr>lim_total = 10, lim_remaining = 3, lim_reset = 100\<rparr>
   \<and> header_writes (trace (ratelimit (default_opts\<lparr>disableHeader := Bool True\<rparr>)
        ex_handler (ex_env 3 95000) ex_req ex_res)) = []
   \<and> res (ratelimit (default_opts\<lparr>disableHeader := Bool True\<rparr>)
        ex_handler (ex_env 3 95000) ex_req ex_res) = snd (ex_handler ex_req ex_res)"
proof -
  let ?o = "default_opts\<lparr>disableHeader := Bool True\<rparr>"
  let ?l = "\<lparr>lim_total = 10, lim_remaining = 3, lim_reset = 100\<rparr>"
  have r: "resolved ?o ex_req (Str ''203.0.113.7'') (Bool False) (Bool False)"
    using resolved_default by (simp add: resolved_def resolve_id_def default_opts_def)
  have g: "limiter_get (ex_env 3 95000) (Str ''203.0.113.7'') = Inr ?l"
    by (simp add: ex_env_sel)
  have hs: "rate_headers ?o ?l = []"
    by (simp add: rate_headers_def js_or_def split: prod.splits)
  have nz: "lim_remaining ?l \<noteq> 0" by simp
  have "ratelimit ?o ex_handler (ex_env 3 95000) ex_req ex_res =
      \<lparr>result = fst (ex_handler ex_req ex_res), res = snd (ex_handler ex_req ex_res),
       trace = prefix_trace ?o @ [LimiterGet (Str ''203.0.113.7''), CallHandler]\<rparr>"
    by (simp add: ratelimit_limited [OF r] limited_admit [OF g nz] Let_def hs del: limit.simps)
  then show ?thesis
    using r g by (simp add: header_writes_append header_writes_prefix default_opts_def)
qed

section \<open>Throttling: raise or write\<close>

text \<open>
  The two ways a throttled request ends. With \<^verbatim>\<open>opts.throw\<close> the middleware raises
  an error with status code 429 whose message is the body of the response (empty while
  \<^verbatim>\<open>res.body\<close> is undefined) and does not end the response. Without it, it raises
  nothing and ends the response with \<^verbatim>\<open>opts.errorMessage\<close> when that is set, and
  else with the default message; the duration in that message is
  \<open>reset * 1000 - now\<close> reduced to the signed 32-bit range.
\<close>

lemma throttle_throw_or_end:
  assumes "resolved opts req idv w b" and "\<not> truthy b" and "idv \<noteq> Bool False"
    and "\<not> truthy w" and "limiter_get e idv = Inr l" and "lim_remaining l = 0"
  shows "if truthy (throw opts)
         then result (ratelimit opts h e req rs) =
                Inl (Error (if body rs = Undefined then [] else to_string (body rs)) (Some 429))
            \<and> ended (res (ratelimit opts h e req rs)) = ended rs
            \<and> (\<forall>m. ResEnd m \<notin> set (trace (ratelimit opts h e req rs)))
         else result (ratelimit opts h e req rs) = Inr Undefined
            \<and> ended (res (ratelimit opts h e req rs)) =
                Some (if truthy (errorMessage opts) then errorMessage opts
                      else Str (''Rate limit exceeded, retry in ''
                                @ ms_long e ((lim_reset l * 1000 - date_now e 0 + 2 ^ 31)
                                               mod 2 ^ 32 - 2 ^ 31)
                                @ ''.''))
            \<and> last (trace (ratelimit opts h e req rs)) =
                ResEnd (if truthy (errorMessage opts) then errorMessage opts
                        else Str (''Rate limit exceeded, retry in ''
                                  @ ms_long e ((lim_reset l * 1000 - date_now e 0 + 2 ^ 31)
                                                 mod 2 ^ 32 - 2 ^ 31)
                                  @ ''.''))"
proof -
  have out: "ratelimit opts h e req rs = limited opts h e req rs idv (prefix_trace opts)"
    using assms(1-4) by (rule ratelimit_limited)
  have err: "set_statusCode (new_Error (body rs)) 429 =
      Error (if body rs = Undefined then [] else to_string (body rs)) (Some 429)"
    by (cases "body rs") (simp_all add: new_Error_def)
  have no_end: "ResEnd m \<notin> (\<lambda>(n, v). SetHeader n v) ` set hs" for m hs
    by auto
  have d: "delta l now = (lim_reset l * 1000 - now + 2 ^ 31) mod 2 ^ 32 - 2 ^ 31" for now
    by (simp add: delta_def to_int32_def)
  show ?thesis
    by (simp add: out limited_throttle [OF assms(5,6)] Let_def err js_or_def no_end
        prefix_trace_no_end d)
qed

text \<open>Half a second before the reset: with \<^verbatim>\<open>throw\<close>, with no option, with a message.\<close>

lemma throttle_throw_or_end_example:
  "result (ratelimit (default_opts\<lparr>throw := Bool True\<rparr>) ex_handler (ex_env 0 99500)
        ex_req ex_res) = Inl (Error [] (Some 429))
   \<and> ended (res (ratelimit (default_opts\<lparr>throw := Bool True\<rparr>) ex_handler (ex_env 0 99500)
        ex_req ex_res)) = None
   \<and> result (ratelimit default_opts ex_handler (ex_env 0 99500) ex_req ex_res) = Inr Undefined
   \<and> ended (res (ratelimit default_opts ex_handler (ex_env 0 99500) ex_req ex_res)) =
        Some (Str ''Rate limit exceeded, retry in 500 ms.'')
   \<and> ended (res (ratelimit (default_opts\<lparr>errorMessage := Str ''Slow down''\<rparr>) ex_handler
        (ex_env 0 99500) ex_req ex_res)) = Some (Str ''Slow down'')"
proof -
  let ?t = "default_opts\<lparr>throw := Bool True\<rparr>"
  let ?m = "default_opts\<lparr>errorMessage := Str ''Slow down''\<rparr>"
  have r: "resolved default_opts ex_req (Str ''203.0.113.7'') (Bool False) (Bool False)"
    by (rule resolved_default)
  have rt: "resolved ?t ex_req (Str ''203.0.113.7'') (Bool False) (Bool False)"
    using r by (simp add: resolved_def resolve_id_def default_opts_def)
  have rm: "resolved ?m ex_req (Str ''203.0.113.7'') (Bool False) (Bool False)"
    using r by (simp add: resolved_def resolve_id_def default_opts_def)
  have g: "limiter_get (ex_env 0 99500) (Str ''203.0.113.7'')
        = Inr \<lparr>lim_total = 10, lim_remaining = 0, lim_reset = 100\<rparr>"
    by (simp add: ex_env_sel)
  have s: "show_int 500 = ''500''"
    by (simp add: show_int_def)
  show ?thesis
    using
      throttle_throw_or_end [OF rt _ _ _ g, where h = ex_handler and rs = ex_res]
      throttle_throw_or_end [OF r _ _ _ g, where h = ex_handler and rs = ex_res]
      throttle_throw_or_end [OF rm _ _ _ g, where h = ex_handler and rs = ex_res]
    by (simp add: default_opts_def ex_res_def ex_env_sel s)
qed

text \<open>
  Claim C6 has the default message embed the milliseconds until the reset. For a window
  of 30 days that has just begun these are 2592000000, and the request is throttled
  without \<^verbatim>\<open>opts.throw\<close> and without \<^verbatim>\<open>opts.errorMessage\<close>: the middleware raises
  nothing and ends the response with the default message, but the duration it hands to
  the formatter is -1702967296. Line 85 reduces the difference to 32 bits, so it is the
  milliseconds until the reset only below \<open>2 ^ 31\<close> (24.8 days).
\<close>

theorem month_window_message:
  "limiter_get (month_env f) i =
     Inr \<lparr>lim_total = 100, lim_remaining = 0, lim_reset = 1702592000\<rparr>
   \<and> date_now (month_env f) 0 = 1700000000000
   \<and> (1702592000 :: int) * 1000 - 1700000000000 = 2592000000
   \<and> result (ratelimit default_opts ex_handler (month_env f) ex_req ex_res) = Inr Undefined
   \<and> ended (res (ratelimit default_opts ex_handler (month_env f) ex_req ex_res)) =
       Some (Str (''Rate limit exceeded, retry in '' @ f (- 1702967296) @ ''.''))"
proof -
  let ?l = "\<lparr>lim_total = 100, lim_remaining = 0, lim_reset = 1702592000\<rparr>"
  have g: "limiter_get (month_env f) i = Inr ?l" for i
    by (simp add: month_env_def)
  have n: "date_now (month_env f) k = 1700000000000" for k
    by (simp add: month_env_def)
  have m: "ms_long (month_env f) = f"
    by (simp add: month_env_def)
  have w: "((2592000000 :: int) + 2 ^ 31) mod 2 ^ 32 - 2 ^ 31 = - 1702967296"
    by simp
  show ?thesis
    using throttle_throw_or_end [OF resolved_default _ _ _ g, where h = ex_handler
        and rs = ex_res]
    by (simp add: g n m w default_opts_def)
qed

section \<open>The default identity\<close>

text \<open>
  \<^verbatim>\<open>keyGenerator\<close> on every request, when no id resolver is configured. The
  \<^verbatim>\<open>X-Forwarded-For\<close> header is the identity as it stands when it is not empty. Else
  the identity is the first non-empty one of \<^verbatim>\<open>req.connection.remoteAddress\<close> and
  \<^verbatim>\<open>req.socket.remoteAddress\<close>. When these are empty too, line 38 reads
  \<^verbatim>\<open>req.connection.socket.remoteAddress\<close>: that value is the identity, and where
  \<^verbatim>\<open>req.connection.socket\<close> is undefined the read throws.
\<close>

lemma default_identity_chain:
  assumes "opt_id opts = None"
  shows "(\<forall>s. req_headers req ''x-forwarded-for'' = Some s \<and> s \<noteq> [] \<longrightarrow>
            resolve_id opts req = Inr (Str s))
       \<and> ((req_headers req ''x-forwarded-for'' = None
            \<or> req_headers req ''x-forwarded-for'' = Some []) \<longrightarrow>
          (truthy (connection_remoteAddress req) \<longrightarrow>
             resolve_id opts req = Inr (connection_remoteAddress req))
          \<and> (\<not> truthy (connection_remoteAddress req) \<and> truthy (socket_remoteAddress req) \<longrightarrow>
             resolve_id opts req = Inr (socket_remoteAddress req))
          \<and> (\<forall>a. \<not> truthy (connection_remoteAddress req) \<and> \<not> truthy (socket_remoteAddress req)
                 \<and> connection_socket req = Some a \<longrightarrow>
             resolve_id opts req = Inr a)
          \<and> (\<not> truthy (connection_remoteAddress req) \<and> \<not> truthy (socket_remoteAddress req)
                 \<and> connection_socket req = None \<longrightarrow>
             resolve_id opts req = Inl (TypeError ''Cannot read properties of undefined'')))"
proof -
  have default: "resolve_id opts req = keyGenerator req"
    using assms by (simp add: resolve_id_def)
  have forwarded: "keyGenerator req = Inr (Str s)"
    if "req_headers req ''x-forwarded-for'' = Some s" "s \<noteq> []" for s
    using that by (simp add: keyGenerator_def)
  have rest: "keyGenerator req =
      (if truthy (connection_remoteAddress req) then Inr (connection_remoteAddress req)
       else if truthy (socket_remoteAddress req) then Inr (socket_remoteAddress req)
       else (case connection_socket req of
               None \<Rightarrow> Inl (TypeError ''Cannot read properties of undefined'')
             | Some a \<Rightarrow> Inr a))"
    if "req_headers req ''x-forwarded-for'' = None
        \<or> req_headers req ''x-forwarded-for'' = Some []"
    using that by (auto simp: keyGenerator_def)
  show ?thesis
    using forwarded rest by (auto simp: default)
qed

text \<open>
  A forwarded-for list of two hops is kept whole; without the header the identity is the
  remote address of the connection.
\<close>

lemma default_identity_chain_example:
  "resolve_id default_opts ex_req = Inr (Str ''203.0.113.7'')
   \<and> resolve_id default_opts (ex_req\<lparr>req_headers := [''x-forwarded-for'' \<mapsto> ''203.0.113.7, 10.1.1.1'']\<rparr>)
       = Inr (Str ''203.0.113.7, 10.1.1.1'')
   \<and> resolve_id default_opts (ex_req\<lparr>req_headers := Map.empty\<rparr>) = Inr (Str ''10.0.0.1'')"
proof -
  have n: "opt_id default_opts = None"
    by (simp add: default_opts_def)
  show ?thesis
    using
      default_identity_chain [OF n, of ex_req]
      default_identity_chain [OF n,
        of "ex_req\<lparr>req_headers := [''x-forwarded-for'' \<mapsto> ''203.0.113.7, 10.1.1.1'']\<rparr>"]
      default_identity_chain [OF n, of "ex_req\<lparr>req_headers := Map.empty\<rparr>"]
    by (simp add: ex_req_def)
qed

text \<open>
  Claim C7 gives every request without an id resolver an identity: the forwarded-for
  header, or else the remote address of the raw connection. On a request without the
  header whose socket is destroyed no source of the chain is non-empty, and line 38
  throws instead: no identity is resolved, the request ends with a
  \<^verbatim>\<open>TypeError\<close> after this one call, and neither predicate, the store nor the handler
  is reached.
\<close>

theorem destroyed_socket_identity:
  "opt_id default_opts = None
   \<and> req_headers dead_req ''x-forwarded-for'' = None
   \<and> connection_remoteAddress dead_req = Undefined
   \<and> socket_remoteAddress dead_req = connection_remoteAddress dead_req
   \<and> connection_socket dead_req = None
   \<and> resolve_id default_opts dead_req = Inl (TypeError ''Cannot read properties of undefined'')
   \<and> resolve_id default_opts dead_req \<noteq> Inr (connection_remoteAddress dead_req)
   \<and> result (ratelimit default_opts h e dead_req rs) =
       Inl (TypeError ''Cannot read properties of undefined'')
   \<and> res (ratelimit default_opts h e dead_req rs) = rs
   \<and> trace (ratelimit default_opts h e dead_req rs) = [ResolveId]"
proof -
  have n: "opt_id default_opts = None"
    by (simp add: default_opts_def)
  have thrown: "resolve_id default_opts dead_req =
      Inl (TypeError ''Cannot read properties of undefined'')"
    using default_identity_chain [OF n, of dead_req] by (simp add: dead_req_def)
  then have "ratelimit default_opts h e dead_req rs =
      \<lparr>result = Inl (TypeError ''Cannot read properties of undefined''), res = rs,
       trace = [ResolveId]\<rparr>"
    by (simp add: ratelimit_def)
  then show ?thesis
    using n thrown by (simp add: dead_req_def)
qed

section \<open>Disabled headers\<close>

text \<open>
  Claim C8. When \<^verbatim>\<open>opts.disableHeader\<close> is set, on every path of every request the
  middleware writes none of the three rate-limit headers: it writes no header at all, or,
  when it throttles, \<^verbatim>\<open>Retry-After\<close> alone.
\<close>

theorem disabled_header_writes:
  assumes "truthy (disableHeader opts)"
  shows "header_writes (trace (ratelimit opts h e req rs)) = []
       \<or> (\<exists>l. header_writes (trace (ratelimit opts h e req rs)) =
                 [(''Retry-After'', Num (after l (date_now e 1)))])"
proof -
  have "rate_headers opts l = []" for l
    using assms by (simp add: rate_headers_def js_or_def split: prod.splits)
  then show ?thesis
    using ratelimit_header_writes [of opts h e req rs]
    by (auto split: if_splits)
qed

text \<open>A throttled and an admitted request with the headers disabled.\<close>

theorem disabled_header_writes_witness:
  "truthy (disableHeader (default_opts\<lparr>disableHeader := Bool True\<rparr>))
   \<and> header_writes (trace (ratelimit (default_opts\<lparr>disableHeader := Bool True\<rparr>) ex_handler
         (ex_env 0 95000) ex_req ex_res)) = [(''Retry-After'', Num 5)]
   \<and> header_writes (trace (ratelimit (default_opts\<lparr>disableHeader := Bool True\<rparr>) ex_handler
         (ex_env 3 95000) ex_req ex_res)) = []"
proof -
  let ?o = "default_opts\<lparr>disableHeader := Bool True\<rparr>"
  have d: "truthy (disableHeader ?o)"
    by simp
  have r: "resolved ?o ex_req (Str ''203.0.113.7'') (Bool False) (Bool False)"
    using resolved_default by (simp add: resolved_def resolve_id_def default_opts_def)
  have hs: "rate_headers ?o l = []" for l
    by (simp add: rate_headers_def js_or_def split: prod.splits)
  have a: "after \<lparr>lim_total = 10, lim_remaining = 0, lim_reset = 100\<rparr> 95000 = 5"
    by (simp add: after_def js_trunc_def to_int32_def)
  have w: "header_writes (trace (ratelimit ?o ex_handler (ex_env k 95000) ex_req ex_res)) =
      (if k = 0 then [(''Retry-After'',
          Num (after \<lparr>lim_total = 10, lim_remaining = k, lim_reset = 100\<rparr> 95000))] else [])"
    for k
    by (simp add: ratelimit_limited [OF r] limited_header_writes [OF ex_env_sel(1)] hs
        header_writes_prefix ex_env_sel)
  show ?thesis
    using d disabled_header_writes [OF d, of ex_handler "ex_env 0 95000" ex_req ex_res]
    by (simp add: w a)
qed

section \<open>The order of the checks\<close>

text \<open>
  Claim C9, as amended. In every request the identity is resolved first. The whitelist
  predicate is evaluated next and the blacklist predicate last, and the decision to deny
  is taken before the decision to bypass: when the three complete and the blacklist
  predicate returned a true value, the calls are exactly these three in this order and
  the request fails with \<^verbatim>\<open>Forbidden\<close>, also when the identity resolver returned
  \<^verbatim>\<open>false\<close>.
\<close>

theorem deny_after_resolution:
  "take 1 (trace (ratelimit opts h e req rs)) = [ResolveId]
   \<and> (resolved opts req idv w b \<and> truthy b \<longrightarrow>
        trace (ratelimit opts h e req rs) =
          ResolveId # pred_call (whitelist opts) CallWhitelist @ [CallBlacklist]
      \<and> precedes ResolveId CallBlacklist (trace (ratelimit opts h e req rs))
      \<and> \<not> precedes CallBlacklist ResolveId (trace (ratelimit opts h e req rs))
      \<and> result (ratelimit opts h e req rs) = Inl (Error ''Forbidden'' (Some 493)))"
proof -
  have first: "take 1 (trace (ratelimit opts h e req rs)) = [ResolveId]"
    by (rule ratelimit_trace_first)
  have deny: "trace (ratelimit opts h e req rs) =
          ResolveId # pred_call (whitelist opts) CallWhitelist @ [CallBlacklist]
      \<and> precedes ResolveId CallBlacklist (trace (ratelimit opts h e req rs))
      \<and> \<not> precedes CallBlacklist ResolveId (trace (ratelimit opts h e req rs))
      \<and> result (ratelimit opts h e req rs) = Inl (Error ''Forbidden'' (Some 493))"
    if r: "resolved opts req idv w b" and t: "truthy b"
  proof -
    have "pred_call (blacklist opts) CallBlacklist = [CallBlacklist]"
      using r t by (cases "blacklist opts") (auto simp: resolved_def eval_pred_def pred_call_def)
    then show ?thesis
      by (simp add: ratelimit_deny [OF r t] prefix_trace_def)
  qed
  show ?thesis
    using first deny by blast
qed

text \<open>The id resolver answers \<^verbatim>\<open>false\<close>, both predicates answer \<^verbatim>\<open>true\<close>.\<close>

theorem deny_after_resolution_witness:
  "resolved deny_opts ex_req (Bool False) (Bool True) (Bool True)
   \<and> truthy (Bool True)
   \<and> take 1 (trace (ratelimit deny_opts ex_handler (ex_env 3 95000) ex_req ex_res)) = [ResolveId]
   \<and> trace (ratelimit deny_opts ex_handler (ex_env 3 95000) ex_req ex_res) =
       [ResolveId, CallWhitelist, CallBlacklist]
   \<and> result (ratelimit deny_opts ex_handler (ex_env 3 95000) ex_req ex_res) =
       Inl (Error ''Forbidden'' (Some 493))"
proof -
  have t: "truthy (Bool True)" by simp
  have p: "pred_call (whitelist deny_opts) CallWhitelist = [CallWhitelist]"
    by (simp add: pred_call_def deny_opts_def default_opts_def)
  show ?thesis
    using resolved_deny t
      deny_after_resolution [of deny_opts ex_handler "ex_env 3 95000" ex_req ex_res
        "Bool False" "Bool True" "Bool True"]
    by (simp add: p)
qed

text \<open>
  Claim C9 as it was stated puts the deny-list check before the identity resolution. On
  the denied request above the blacklist predicate is the last of the three calls; and
  when the id resolver throws, the request ends with that error and the blacklist
  predicate is never called.
\<close>

theorem identity_resolved_first_counterexample:
  "resolved deny_opts ex_req (Bool False) (Bool True) (Bool True)
   \<and> trace (ratelimit deny_opts ex_handler (ex_env 3 95000) ex_req ex_res) =
       [ResolveId, CallWhitelist, CallBlacklist]
   \<and> \<not> precedes CallBlacklist ResolveId
         (trace (ratelimit deny_opts ex_handler (ex_env 3 95000) ex_req ex_res))
   \<and> \<not> precedes CallBlacklist CallWhitelist
         (trace (ratelimit deny_opts ex_handler (ex_env 3 95000) ex_req ex_res))
   \<and> blacklist (deny_opts\<lparr>opt_id := Some (\<lambda>_. Inl (Error ''no id'' None))\<rparr>) \<noteq> None
   \<and> result (ratelimit (deny_opts\<lparr>opt_id := Some (\<lambda>_. Inl (Error ''no id'' None))\<rparr>)
        ex_handler (ex_env 3 95000) ex_req ex_res) = Inl (Error ''no id'' None)
   \<and> trace (ratelimit (deny_opts\<lparr>opt_id := Some (\<lambda>_. Inl (Error ''no id'' None))\<rparr>)
        ex_handler (ex_env 3 95000) ex_req ex_res) = [ResolveId]"
proof -
  let ?d = "ratelimit deny_opts ex_handler (ex_env 3 95000) ex_req ex_res"
  let ?f = "deny_opts\<lparr>opt_id := Some (\<lambda>_. Inl (Error ''no id'' None))\<rparr>"
  have p: "prefix_trace deny_opts = [ResolveId, CallWhitelist, CallBlacklist]"
    by (simp add: prefix_trace_def pred_call_def deny_opts_def default_opts_def)
  have t: "truthy (Bool True)" by simp
  have a: "trace ?d = [ResolveId, CallWhitelist, CallBlacklist]"
    by (simp add: ratelimit_deny [OF resolved_deny t] p)
  have b: "\<not> precedes CallBlacklist ResolveId (trace ?d)"
    and c: "\<not> precedes CallBlacklist CallWhitelist (trace ?d)"
    by (simp_all add: a)
  have d: "blacklist ?f \<noteq> None"
    by (simp add: deny_opts_def default_opts_def)
  have "ratelimit ?f ex_handler (ex_env 3 95000) ex_req ex_res =
      \<lparr>result = Inl (Error ''no id'' None), res = ex_res, trace = [ResolveId]\<rparr>"
    by (simp add: ratelimit_def resolve_id_def)
  then have e: "result (ratelimit ?f ex_handler (ex_env 3 95000) ex_req ex_res) =
        Inl (Error ''no id'' None)"
    and f: "trace (ratelimit ?f ex_handler (ex_env 3 95000) ex_req ex_res) = [ResolveId]"
    by simp_all
  show ?thesis
    using resolved_deny a b c d e f by blast
qed

section \<open>The response when the error is raised\<close>

text \<open>
  Claim C10. On the throttle path with \<^verbatim>\<open>opts.throw\<close> set, the response has been
  changed when the error is raised: \<^verbatim>\<open>Retry-After\<close> was written and the status code
  set to 429, the last two calls of the request, so the response differs from the one
  received. The message of the error is taken from \<^verbatim>\<open>res.body\<close>, which the
  middleware has not written (nor has it ended the response).
\<close>

theorem throw_after_mutation:
  assumes "resolved opts req idv w b" and "\<not> truthy b" and "idv \<noteq> Bool False"
    and "\<not> truthy w" and "limiter_get e idv = Inr l" and "lim_remaining l = 0"
    and "truthy (throw opts)"
  shows "result (ratelimit opts h e req rs) =
           Inl (Error (if body rs = Undefined then [] else to_string (body rs)) (Some 429))
       \<and> res (ratelimit opts h e req rs) =
           rs\<lparr>res_headers := res_headers rs @ rate_headers opts l
                  @ [(''Retry-After'', Num (after l (date_now e 1)))],
              statusCode := 429\<rparr>
       \<and> res (ratelimit opts h e req rs) \<noteq> rs
       \<and> body (res (ratelimit opts h e req rs)) = body rs
       \<and> ended (res (ratelimit opts h e req rs)) = ended rs
       \<and> trace (ratelimit opts h e req rs) =
           prefix_trace opts @ [LimiterGet idv]
           @ map (\<lambda>(n, v). SetHeader n v) (rate_headers opts l)
           @ [SetHeader ''Retry-After'' (Num (after l (date_now e 1))), SetStatusCode 429]"
proof -
  let ?r3 = "rs\<lparr>res_headers := res_headers rs @ rate_headers opts l
                  @ [(''Retry-After'', Num (after l (date_now e 1)))],
              statusCode := 429\<rparr>"
  have out: "ratelimit opts h e req rs = limited opts h e req rs idv (prefix_trace opts)"
    using assms(1-4) by (rule ratelimit_limited)
  have err: "set_statusCode (new_Error (body rs)) 429 =
      Error (if body rs = Undefined then [] else to_string (body rs)) (Some 429)"
    by (cases "body rs") (simp_all add: new_Error_def)
  have "res_headers ?r3 \<noteq> res_headers rs"
    by simp
  then have ne: "?r3 \<noteq> rs"
    by metis
  show ?thesis
    using ne by (simp add: out limited_throttle [OF assms(5,6)] Let_def err assms(7))
qed

text \<open>The empty options with \<^verbatim>\<open>throw: true\<close>, five seconds before the reset.\<close>

theorem throw_after_mutation_witness:
  "resolved (default_opts\<lparr>throw := Bool True\<rparr>) ex_req
        (Str ''203.0.113.7'') (Bool False) (Bool False)
   \<and> limiter_get (ex_env 0 95000) (Str ''203.0.113.7'')
        = Inr \<lparr>lim_total = 10, lim_remaining = 0, lim_reset = 100\<rparr>
   \<and> truthy (throw (default_opts\<lparr>throw := Bool True\<rparr>))
   \<and> result (ratelimit (default_opts\<lparr>throw := Bool True\<rparr>) ex_handler (ex_env 0 95000)
        ex_req ex_res) = Inl (Error [] (Some 429))
   \<and> res (ratelimit (default_opts\<lparr>throw := Bool True\<rparr>) ex_handler (ex_env 0 95000)
        ex_req ex_res) =
       \<lparr>statusCode = 429,
        res_headers = [(''X-RateLimit-Limit'', Num 10), (''X-RateLimit-Remaining'', Num 0),
                       (''X-RateLimit-Reset'', Num 100), (''Retry-After'', Num 5)],
        body = Undefined, ended = None\<rparr>"
proof -
  let ?t = "default_opts\<lparr>throw := Bool True\<rparr>"
  let ?l = "\<lparr>lim_total = 10, lim_remaining = 0, lim_reset = 100\<rparr>"
  have rt: "resolved ?t ex_req (Str ''203.0.113.7'') (Bool False) (Bool False)"
    using resolved_default by (simp add: resolved_def resolve_id_def default_opts_def)
  have g: "limiter_get (ex_env 0 95000) (Str ''203.0.113.7'') = Inr ?l"
    by (simp add: ex_env_sel)
  have th: "truthy (throw ?t)"
    by simp
  have hs: "rate_headers ?t ?l =
      [(''X-RateLimit-Limit'', Num 10), (''X-RateLimit-Remaining'', Num 0),
       (''X-RateLimit-Reset'', Num 100)]"
    by (simp add: rate_headers_def header_names_def default_opts_def js_or_def calls_def)
  have a: "after ?l 95000 = 5"
    by (simp add: after_def js_trunc_def to_int32_def)
  show ?thesis
    using rt g th
      throw_after_mutation [OF rt _ _ _ g _ th, where h = ex_handler and rs = ex_res]
    by (simp add: hs a ex_env_sel ex_res_def)
qed

end
